theory Spec2Isabelle
  imports Complex_Main
begin

section \<open>Python values, exceptions and decimal text\<close>

text \<open>
  The exceptions that the modelled code can raise. \<open>SerialException\<close> stands for
  \<^verbatim>\<open>serial.serialutil.SerialException\<close> and its subclasses, \<open>OtherError\<close> for any
  exception that a collaborator outside the modelled files may raise.
\<close>

datatype pyval = Str string | Num int

datatype error =
    SerialException
  | ValueError
  | AttributeError
  | TypeError
  | NotImplementedError
  | KeyError pyval
  | OtherError string

text \<open>
  A call that may raise returns \<open>Inl e\<close>, paired with the state as the call left it:
  a Python object mutated before the exception stays mutated.
\<close>

type_synonym ('a, 's) result = "(error + 'a) \<times> 's"

definition isDigit :: "char \<Rightarrow> bool" where
  "isDigit c = (c \<in> set ''0123456789'')"

text \<open>The value of a digit: its place among the ten digits.\<close>

definition digitVal :: "char \<Rightarrow> nat" where
  "digitVal c = length (takeWhile (\<lambda>d. d \<noteq> c) ''0123456789'')"

definition digitChar :: "nat \<Rightarrow> char" where
  "digitChar d = ''0123456789'' ! d"

text \<open>The value of a string of decimal digits, most significant digit first.\<close>

definition digitsVal :: "string \<Rightarrow> nat" where
  "digitsVal s = foldl (\<lambda>a c. 10 * a + digitVal c) 0 s"

text \<open>Python's \<^verbatim>\<open>str(n)\<close> (and \<^verbatim>\<open>f"{n}"\<close>) for an integer.\<close>

fun str_nat :: "nat \<Rightarrow> string" where
  "str_nat n = (if n < 10 then [digitChar n] else str_nat (n div 10) @ [digitChar (n mod 10)])"

definition str_int :: "int \<Rightarrow> string" where
  "str_int i = (if i < 0 then CHR ''-'' # str_nat (nat (- i)) else str_nat (nat i))"

fun str_pyval :: "pyval \<Rightarrow> string" where
  "str_pyval (Str s) = s"
| "str_pyval (Num i) = str_int i"

text \<open>
  \<^verbatim>\<open>int(s)\<close> and \<^verbatim>\<open>float(s)\<close> on the strings that the message grammar can hand
  them: a code character (a digit or a bracket) and a possibly empty run of digits.
  Both raise \<^verbatim>\<open>ValueError\<close> on the empty string and on a bracket. Python floats are
  modelled as exact reals: rounding is not modelled.
\<close>

definition py_int :: "string \<Rightarrow> error + nat" where
  "py_int s = (if s \<noteq> [] \<and> list_all isDigit s then Inr (digitsVal s) else Inl ValueError)"

definition py_float :: "string \<Rightarrow> error + real" where
  "py_float s = (if s \<noteq> [] \<and> list_all isDigit s then Inr (real (digitsVal s)) else Inl ValueError)"

section \<open>The T-Pad driver (\<^verbatim>\<open>hardware/bbtk/tpad.py\<close>)\<close>

subsection \<open>Message grammar\<close>

definition channelCodes :: "(char \<times> string) list" where
  "channelCodes =
     [(CHR ''A'', ''Buttons''), (CHR ''C'', ''Optos''), (CHR ''M'', ''Voice key''),
      (CHR ''T'', ''TTL in'')]"

definition stateCodes :: "(char \<times> string) list" where
  "stateCodes = [(CHR ''P'', ''Pressed/On''), (CHR ''R'', ''Released/Off'')]"

definition buttonCodes :: "(char \<times> string) list" where
  "buttonCodes =
     [(CHR ''1'', ''Button 1''), (CHR ''2'', ''Button 2''), (CHR ''3'', ''Button 2''),
      (CHR ''4'', ''Button 2''), (CHR ''5'', ''Button 2''), (CHR ''6'', ''Button 2''),
      (CHR ''7'', ''Button 2''), (CHR ''8'', ''Button 2''), (CHR ''9'', ''Button 2''),
      (CHR ''0'', ''Button 2''), (CHR ''['', ''Opto 1''), (CHR '']'', ''Opto 2'')]"

text \<open>
  \<^verbatim>\<open>re.match(messageFormat, line)\<close>, where \<^verbatim>\<open>messageFormat\<close> is
  \<^verbatim>\<open>([ACMT]) ([PR]) ([1234567890\[\]]) (\d*)\<close>: one character of each code table, each
  followed by one space, then the longest run of digits. The match is anchored at the
  start of the line only, so anything may follow the digits. The result is the four
  groups, or \<open>None\<close> when the line does not match. Characters are bytes here, so
  \<^verbatim>\<open>\d\<close> is one of the ten ASCII digits.
\<close>

fun matchMessageFormat :: "string \<Rightarrow> (char \<times> char \<times> char \<times> string) option" where
  "matchMessageFormat (c # s1 # st # s2 # b # s3 # rest) =
     (if c \<in> set (map fst channelCodes) \<and> s1 = CHR '' ''
         \<and> st \<in> set (map fst stateCodes) \<and> s2 = CHR '' ''
         \<and> b \<in> set (map fst buttonCodes) \<and> s3 = CHR '' ''
      then Some (c, st, b, takeWhile isDigit rest)
      else None)"
| "matchMessageFormat _ = None"

text \<open>\<^verbatim>\<open>re.match(...).groups()\<close>: the attribute access fails on \<^verbatim>\<open>None\<close>.\<close>

definition splitTPadMessage :: "string \<Rightarrow> error + (char \<times> char \<times> char \<times> string)" where
  "splitTPadMessage message =
     (case matchMessageFormat message of None \<Rightarrow> Inl AttributeError | Some g \<Rightarrow> Inr g)"

subsection \<open>Sub-device handlers\<close>

text \<open>
  The value of a response: \<^verbatim>\<open>parseMessage\<close> turns the state \<^verbatim>\<open>"P"\<close> into
  \<^verbatim>\<open>True\<close> and \<^verbatim>\<open>"R"\<close> into \<^verbatim>\<open>False\<close>, and leaves any other state as it is.
\<close>

datatype stateValue = VBool bool | VRaw char

text \<open>
  \<^verbatim>\<open>photodiode.PhotodiodeResponse(time, state, threshold=...)\<close>. The time is whatever
  the message tuple holds: a float from \<^verbatim>\<open>dispatchMessages\<close>, the digit string when
  \<^verbatim>\<open>parseMessage\<close> is given a raw line.
\<close>

record 'tm photodiodeResponse =
  resp_t :: 'tm
  resp_value :: stateValue
  resp_threshold :: "int option"

record tPadPhotodiode =
  number :: nat
  pd_threshold :: "int option"
  pd_messages :: "real photodiodeResponse list"

text \<open>
  Modelled from the spec: \<^verbatim>\<open>BasePhotodiode.getThreshold\<close> and
  \<^verbatim>\<open>BasePhotodiode.receiveMessage\<close> are not among the source files. The spec says that a
  photodiode handler owns a threshold "mirrored locally for synchronous querying", and
  that \<^verbatim>\<open>receiveMessage(response)\<close> "appends to its own ordered log".
\<close>

definition getThreshold :: "tPadPhotodiode \<Rightarrow> int option" where
  "getThreshold self = pd_threshold self"

definition receiveMessage :: "tPadPhotodiode \<Rightarrow> real photodiodeResponse \<Rightarrow> tPadPhotodiode" where
  "receiveMessage self message = self\<lparr>pd_messages := pd_messages self @ [message]\<rparr>"

text \<open>\<^verbatim>\<open>TPadPhotodiode.parseMessage\<close> on a tuple (the branch after the \<^verbatim>\<open>isinstance\<close> test).\<close>

definition parseMessage :: "tPadPhotodiode \<Rightarrow> char \<times> char \<times> 'b \<times> 'tm \<Rightarrow> 'tm photodiodeResponse" where
  "parseMessage self message =
     (case message of (channel, state, button, time) \<Rightarrow>
        let state' = (if state = CHR ''P'' then VBool True
                      else if state = CHR ''R'' then VBool False
                      else VRaw state)
        in \<lparr>resp_t = time, resp_value = state', resp_threshold = getThreshold self\<rparr>)"

text \<open>\<^verbatim>\<open>TPadPhotodiode.parseMessage\<close> on a string: split by the grammar first.\<close>

definition parseMessage_str :: "tPadPhotodiode \<Rightarrow> string \<Rightarrow> error + string photodiodeResponse" where
  "parseMessage_str self message =
     (case splitTPadMessage message of
        Inl e \<Rightarrow> Inl e
      | Inr g \<Rightarrow> Inr (parseMessage self g))"

text \<open>
  \<^verbatim>\<open>TPadButton\<close> and \<^verbatim>\<open>TPadVoicekey\<close> define \<^verbatim>\<open>__init__\<close> only, which stores
  nothing: they have no \<^verbatim>\<open>parseMessage\<close> and no \<^verbatim>\<open>receiveMessage\<close>.
\<close>

datatype tPadButton = TPadButton

datatype tPadVoicekey = TPadVoicekey

subsection \<open>The serial device and the host clock\<close>

text \<open>
  \<^verbatim>\<open>SerialDevice\<close> (the base class of \<^verbatim>\<open>TPad\<close>) and \<^verbatim>\<open>logging.defaultClock\<close> are
  not among the source files: their operations are parameters, acting on a state \<open>'w\<close>
  of the port and the host. Every transport operation may raise; reading the clock
  does not. \<open>getResponse\<close> takes
  \<open>Some (length, timeout)\<close> when called with these arguments and \<open>None\<close> when called
  with none.
\<close>

record 'w serialDevice =
  sendMessage :: "string \<Rightarrow> 'w \<Rightarrow> (unit, 'w) result"
  pause :: "'w \<Rightarrow> (unit, 'w) result"
  getResponse :: "(nat \<times> real) option \<Rightarrow> 'w \<Rightarrow> (string list, 'w) result"
  getTime :: "'w \<Rightarrow> real \<times> 'w"

record 'w tPad =
  port :: 'w
  messages :: "real \<rightharpoonup> string"
  photodiodes :: "nat \<rightharpoonup> tPadPhotodiode"
  buttons :: "nat \<rightharpoonup> tPadButton"
  voicekeys :: "nat \<rightharpoonup> tPadVoicekey"
  lastTimerReset :: "real option"

subsection \<open>Modes and the timer\<close>

text \<open>
  The \<^verbatim>\<open>try\<close> block of \<^verbatim>\<open>setMode\<close>: send \<^verbatim>\<open>"X"\<close> and pause; a
  \<^verbatim>\<open>SerialException\<close> from either is caught and dropped, any other exception is not.
\<close>

definition exitMode :: "'w serialDevice \<Rightarrow> 'w \<Rightarrow> (unit, 'w) result" where
  "exitMode dev w =
     (case (case sendMessage dev ''X'' w of
              (Inl e, w1) \<Rightarrow> (Inl e, w1)
            | (Inr _, w1) \<Rightarrow> pause dev w1) of
        (Inl e, w2) \<Rightarrow> (if e = SerialException then (Inr (), w2) else (Inl e, w2))
      | (Inr _, w2) \<Rightarrow> (Inr (), w2))"

definition setMode :: "'w serialDevice \<Rightarrow> int \<Rightarrow> 'w tPad \<Rightarrow> (unit, 'w tPad) result" where
  "setMode dev mode self =
     (case exitMode dev (port self) of
        (Inl e, w1) \<Rightarrow> (Inl e, self\<lparr>port := w1\<rparr>)
      | (Inr _, w1) \<Rightarrow>
          (case sendMessage dev (''MOD'' @ str_int mode) w1 of
             (Inl e, w2) \<Rightarrow> (Inl e, self\<lparr>port := w2\<rparr>)
           | (Inr _, w2) \<Rightarrow>
               (case pause dev w2 of
                  (Inl e, w3) \<Rightarrow> (Inl e, self\<lparr>port := w3\<rparr>)
                | (Inr _, w3) \<Rightarrow>
                    (case getResponse dev None w3 of
                       (Inl e, w4) \<Rightarrow> (Inl e, self\<lparr>port := w4\<rparr>)
                     | (Inr _, w4) \<Rightarrow> (Inr (), self\<lparr>port := w4\<rparr>)))))"

definition resetTimer :: "'w serialDevice \<Rightarrow> 'w tPad \<Rightarrow> (unit, 'w tPad) result" where
  "resetTimer dev self =
     (case setMode dev 0 self of
        (Inl e, s1) \<Rightarrow> (Inl e, s1)
      | (Inr _, s1) \<Rightarrow>
          (case sendMessage dev ''REST'' (port s1) of
             (Inl e, w2) \<Rightarrow> (Inl e, s1\<lparr>port := w2\<rparr>)
           | (Inr _, w2) \<Rightarrow>
               (case pause dev w2 of
                  (Inl e, w3) \<Rightarrow> (Inl e, s1\<lparr>port := w3\<rparr>)
                | (Inr _, w3) \<Rightarrow>
                    (case getTime dev w3 of
                       (now, w4) \<Rightarrow> setMode dev 3 (s1\<lparr>port := w4, lastTimerReset := Some now\<rparr>)))))"

text \<open>
  \<^verbatim>\<open>TPad.__init__\<close> for a given port: an empty history, photodiodes 1 and 2, buttons
  1 to 10, voice key 1, no reset time yet (\<open>freshTPad\<close>), then \<^verbatim>\<open>resetTimer\<close>.
\<close>

definition freshTPad :: "'w \<Rightarrow> 'w tPad" where
  "freshTPad w =
     \<lparr>port = w,
      messages = Map.empty,
      photodiodes = (\<lambda>k. if 1 \<le> k \<and> k \<le> 2
                           then Some \<lparr>number = k, pd_threshold = None, pd_messages = []\<rparr>
                           else None),
      buttons = (\<lambda>k. if 1 \<le> k \<and> k \<le> 10 then Some TPadButton else None),
      voicekeys = (\<lambda>k. if 1 \<le> k \<and> k \<le> 1 then Some TPadVoicekey else None),
      lastTimerReset = None\<rparr>"

definition tPad_init :: "'w serialDevice \<Rightarrow> 'w \<Rightarrow> (unit, 'w tPad) result" where
  "tPad_init dev w = resetTimer dev (freshTPad w)"

subsection \<open>Dispatching messages\<close>

datatype node = ButtonNode tPadButton | PhotodiodeNode nat tPadPhotodiode | VoicekeyNode tPadVoicekey

text \<open>
  The three \<^verbatim>\<open>if\<close> statements that choose the object to dispatch to, in the
  source's order: a later one that applies replaces the earlier choice.
\<close>

definition chooseNode :: "'w tPad \<Rightarrow> char \<Rightarrow> nat \<Rightarrow> node option" where
  "chooseNode self channel button =
     (let node0 = None;
          node1 = (if channel = CHR ''A'' then
                     (case buttons self button of Some b \<Rightarrow> Some (ButtonNode b) | None \<Rightarrow> node0)
                   else node0);
          node2 = (if channel = CHR ''C'' then
                     (case photodiodes self button of
                        Some p \<Rightarrow> Some (PhotodiodeNode button p) | None \<Rightarrow> node1)
                   else node1);
          node3 = (if channel = CHR ''M'' then
                     (case voicekeys self button of Some v \<Rightarrow> Some (VoicekeyNode v) | None \<Rightarrow> node2)
                   else node2)
      in node3)"

text \<open>
  The body of the \<^verbatim>\<open>for line in data\<close> loop of \<^verbatim>\<open>dispatchMessages\<close>. Adding the
  float to a reset time that is still \<^verbatim>\<open>None\<close> raises \<^verbatim>\<open>TypeError\<close>; calling
  \<^verbatim>\<open>parseMessage\<close> on a button or a voice key raises \<^verbatim>\<open>AttributeError\<close>, after
  the line has been stored.
\<close>

definition dispatchLine :: "'w tPad \<Rightarrow> string \<Rightarrow> (unit, 'w tPad) result" where
  "dispatchLine self line =
     (case matchMessageFormat line of
        None \<Rightarrow> (Inr (), self)
      | Some (channel, state, button, time) \<Rightarrow>
          (case py_int [button] of
             Inl e \<Rightarrow> (Inl e, self)
           | Inr button' \<Rightarrow>
               (case py_float time of
                  Inl e \<Rightarrow> (Inl e, self)
                | Inr f \<Rightarrow>
                    (case lastTimerReset self of
                       None \<Rightarrow> (Inl TypeError, self)
                     | Some t0 \<Rightarrow>
                         let time' = f / 1000 + t0;
                             parts = (channel, state, button', time');
                             self' = self\<lparr>messages := (messages self)(time' \<mapsto> line)\<rparr>
                         in (case chooseNode self' channel button' of
                               None \<Rightarrow> (Inr (), self')
                             | Some (PhotodiodeNode k p) \<Rightarrow>
                                 (Inr (), self'\<lparr>photodiodes :=
                                    (photodiodes self')(k \<mapsto> receiveMessage p (parseMessage p parts))\<rparr>)
                             | Some (ButtonNode b) \<Rightarrow> (Inl AttributeError, self')
                             | Some (VoicekeyNode v) \<Rightarrow> (Inl AttributeError, self'))))))"

fun dispatchLines :: "'w tPad \<Rightarrow> string list \<Rightarrow> (unit, 'w tPad) result" where
  "dispatchLines self [] = (Inr (), self)"
| "dispatchLines self (line # data) =
     (case dispatchLine self line of
        (Inl e, self') \<Rightarrow> (Inl e, self')
      | (Inr _, self') \<Rightarrow> dispatchLines self' data)"

definition dispatchMessages :: "'w serialDevice \<Rightarrow> real \<Rightarrow> 'w tPad \<Rightarrow> (unit, 'w tPad) result" where
  "dispatchMessages dev timeout self =
     (case getResponse dev (Some (2, timeout)) (port self) of
        (Inl e, w1) \<Rightarrow> (Inl e, self\<lparr>port := w1\<rparr>)
      | (Inr data, w1) \<Rightarrow>
          (case pause dev w1 of
             (Inl e, w2) \<Rightarrow> (Inl e, self\<lparr>port := w2\<rparr>)
           | (Inr _, w2) \<Rightarrow> dispatchLines (self\<lparr>port := w2\<rparr>) data))"

subsection \<open>Observing a device\<close>

text \<open>
  What a run does to the outside is read off a trace: \<open>traced dev\<close> behaves as
  \<open>dev\<close> does and notes, in order, every command passed to \<^verbatim>\<open>sendMessage\<close> (whether
  or not the transport then raises) and every clock reading.
\<close>

datatype event = Sent string | Clock real

definition traced :: "'w serialDevice \<Rightarrow> ('w \<times> event list) serialDevice" where
  "traced dev =
     \<lparr>sendMessage = (\<lambda>s (w, tr). case sendMessage dev s w of (r, w') \<Rightarrow> (r, (w', tr @ [Sent s]))),
      pause = (\<lambda>(w, tr). case pause dev w of (r, w') \<Rightarrow> (r, (w', tr))),
      getResponse = (\<lambda>a (w, tr). case getResponse dev a w of (r, w') \<Rightarrow> (r, (w', tr))),
      getTime = (\<lambda>(w, tr). case getTime dev w of (now, w') \<Rightarrow> (now, (w', tr @ [Clock now])))\<rparr>"

text \<open>
  A scripted port for the examples: it keeps what was written to it, hands out the
  lines that wait in \<open>incoming\<close>, raises \<^verbatim>\<open>SerialException\<close> on the commands listed
  in \<open>refused\<close>, and its clock stands at \<open>clock\<close>.
\<close>

record host =
  written :: "string list"
  incoming :: "string list"
  refused :: "string list"
  clock :: real

definition scripted :: "host serialDevice" where
  "scripted =
     \<lparr>sendMessage = (\<lambda>s w. if s \<in> set (refused w) then (Inl SerialException, w)
                            else (Inr (), w\<lparr>written := written w @ [s]\<rparr>)),
      pause = (\<lambda>w. (Inr (), w)),
      getResponse = (\<lambda>a w. (Inr (incoming w), w\<lparr>incoming := []\<rparr>)),
      getTime = (\<lambda>w. (clock w, w))\<rparr>"

definition quietHost :: host where
  "quietHost = \<lparr>written = [], incoming = [], refused = [], clock = 100\<rparr>"

text \<open>The driver as \<^verbatim>\<open>TPad(port)\<close> leaves it on the scripted port, at clock time 100.\<close>

definition exampleTPad :: "host tPad" where
  "exampleTPad = snd (tPad_init scripted quietHost)"

text \<open>
  A second port for the examples, whose state is the batches of lines still to come:
  each \<^verbatim>\<open>getResponse\<close> takes the next batch, every command is taken without
  fault, and the clock stands at \<open>now\<close>.
\<close>

definition queued :: "real \<Rightarrow> (string list list) serialDevice" where
  "queued now =
     \<lparr>sendMessage = (\<lambda>s w. (Inr (), w)),
      pause = (\<lambda>w. (Inr (), w)),
      getResponse = (\<lambda>a w. case w of [] \<Rightarrow> (Inr [], w) | batch # rest \<Rightarrow> (Inr batch, rest)),
      getTime = (\<lambda>w. (now, w))\<rparr>"

text \<open>
  Two drivers for the examples: one on the queued port, before its first reset, with a
  line waiting behind the two batches that the reset reads; one on the scripted port
  with a batch of four lines waiting.
\<close>

definition waitingTPad :: "(string list list \<times> event list) tPad" where
  "waitingTPad = freshTPad ([[], [], [''C P 2 0'']], [])"


section \<open>The device manager (\<^verbatim>\<open>hardware/manager.py\<close>)\<close>

subsection \<open>Registering a device\<close>

text \<open>
  A device as the spec describes it: its identity (a type tag and the construction
  parameters that identify the physical device) and a live handle.
\<close>

record device =
  deviceType :: string
  identityParams :: "(string \<times> pyval) list"
  handle :: nat

text \<open>
  Modelled from the spec: \<^verbatim>\<open>isSameDevice\<close> is a method of the device classes, which
  are not among the source files. The spec's \<^verbatim>\<open>register\<close> looks for "an existing device
  whose identity parameters equal the new device's", the identity being the
  "(type, identity-parameters) tuple". The argument \<^verbatim>\<open>device.__dict__\<close> is the new
  device's attributes, here the record itself.
\<close>

definition isSameDevice :: "device \<Rightarrow> device \<Rightarrow> bool" where
  "isSameDevice self params =
     (deviceType self = deviceType params \<and> identityParams self = identityParams params)"

definition deviceIdentity :: "device \<Rightarrow> string \<times> (string \<times> pyval) list" where
  "deviceIdentity d = (deviceType d, identityParams d)"

text \<open>
  \<^verbatim>\<open>DeviceManager.registerDevice\<close>; the manager is the list itself. The test
  \<^verbatim>\<open>obj.isSameDevice(params=device.__dict__)\<close> is the parameter \<open>same\<close>, applied to
  the registered device and the new one. The scan returns at the first device that is
  the same; only a scan that finds none reaches the append.
\<close>

definition registerDevice :: "('d \<Rightarrow> 'd \<Rightarrow> bool) \<Rightarrow> 'd list \<Rightarrow> 'd \<Rightarrow> 'd list" where
  "registerDevice same self device =
     (if list_ex (\<lambda>obj. same obj device) self then self else self @ [device])"

subsection \<open>Adding devices from a spec\<close>

text \<open>
  An entry of a spec list is a dictionary with string keys, here an association list
  with distinct keys. The manager's state: the list of devices, the attribute
  \<^verbatim>\<open>devices\<close> that the name loop reads (\<^verbatim>\<open>manager.py\<close> never assigns it, so it is
  \<open>None\<close> until something else sets it), and a trace of the add-method calls made at
  the last line of the loop body: type, name and remaining keys of each.
\<close>

type_synonym item = "(string \<times> pyval) list"

record manager =
  registry :: "device list"
  devices :: "pyval list option"
  invoked :: "(pyval \<times> pyval \<times> item) list"

type_synonym addMethod = "pyval \<Rightarrow> item \<Rightarrow> manager \<Rightarrow> (unit, manager) result"

text \<open>\<^verbatim>\<open>item.pop(key)\<close> on a dictionary that has the key: the entry without it.\<close>

definition pop :: "string \<Rightarrow> item \<Rightarrow> item" where
  "pop key item = filter (\<lambda>kv. fst kv \<noteq> key) item"

text \<open>
  The decorator \<^verbatim>\<open>deviceAddMethod(key)\<close> maps the function to the key in
  \<^verbatim>\<open>_deviceAddMethods\<close>; a later registration under the same key replaces the earlier.
\<close>

definition deviceAddMethod :: "pyval \<Rightarrow> addMethod \<Rightarrow> (pyval \<rightharpoonup> addMethod) \<Rightarrow> (pyval \<rightharpoonup> addMethod)" where
  "deviceAddMethod key fcn table = table(key \<mapsto> fcn)"

text \<open>
  The name tried after \<open>i\<close> rounds of the \<^verbatim>\<open>while\<close> loop: the type itself at first,
  then \<^verbatim>\<open>f"{ioType}{i}"\<close>.
\<close>

definition suffixedName :: "pyval \<Rightarrow> nat \<Rightarrow> pyval" where
  "suffixedName ioType i = (if i = 0 then ioType else Str (str_pyval ioType @ str_nat i))"

lemma digitVal_digitChar: "d < 10 \<Longrightarrow> digitVal (digitChar d) = d"
proof -
  assume "d < 10"
  then have "d = 0 \<or> d = 1 \<or> d = 2 \<or> d = 3 \<or> d = 4 \<or> d = 5 \<or> d = 6 \<or> d = 7 \<or> d = 8 \<or> d = 9"
    by arith
  then show ?thesis
    by (elim disjE) (simp_all add: digitVal_def digitChar_def)
qed

lemma digitsVal_snoc: "digitsVal (s @ [c]) = 10 * digitsVal s + digitVal c"
  by (simp add: digitsVal_def)

lemma digitsVal_str_nat: "digitsVal (str_nat n) = n"
proof (induction n rule: str_nat.induct)
  case (1 n)
  show ?case
  proof (cases "n < 10")
    case True
    then show ?thesis by (simp add: digitsVal_def digitVal_digitChar)
  next
    case False
    with 1 show ?thesis
      by (subst str_nat.simps) (simp add: digitsVal_snoc digitVal_digitChar)
  qed
qed

lemma str_nat_inj: "str_nat a = str_nat b \<Longrightarrow> a = b"
  by (metis digitsVal_str_nat)

lemma suffixedName_inj: "0 < i \<Longrightarrow> 0 < j \<Longrightarrow> suffixedName ioType i = suffixedName ioType j \<Longrightarrow> i = j"
  by (simp add: suffixedName_def str_nat_inj)

lemma finite_taken_names: "finite {j. i \<le> j \<and> suffixedName ioType j \<in> set devs}"
proof -
  let ?A = "{j. 0 < j \<and> suffixedName ioType j \<in> set devs}"
  have "inj_on (suffixedName ioType) ?A"
    by (auto simp: inj_on_def dest: suffixedName_inj)
  moreover have "finite (suffixedName ioType ` ?A)"
    by (rule finite_subset [of _ "set devs"]) auto
  ultimately have "finite ?A"
    by (rule finite_imageD [rotated])
  moreover have "{j. i \<le> j \<and> suffixedName ioType j \<in> set devs} \<subseteq> insert 0 ?A"
    by auto
  ultimately show ?thesis
    by (metis finite_insert finite_subset)
qed

text \<open>
  The \<^verbatim>\<open>while name in self.devices\<close> loop, from round \<open>i\<close> on. It ends because the
  names tried are pairwise different and \<^verbatim>\<open>devices\<close> is finite.
\<close>

function uniqueName :: "pyval list \<Rightarrow> pyval \<Rightarrow> nat \<Rightarrow> pyval" where
  "uniqueName devs ioType i =
     (if suffixedName ioType i \<in> set devs then uniqueName devs ioType (Suc i)
      else suffixedName ioType i)"
  by pat_completeness auto
termination
proof (relation "measure (\<lambda>(devs, ioType, i). card {j. i \<le> j \<and> suffixedName ioType j \<in> set devs})")
  show "wf (measure (\<lambda>(devs, ioType, i). card {j. i \<le> j \<and> suffixedName ioType j \<in> set devs}))"
    by simp
next
  fix devs :: "pyval list" and ioType :: pyval and i :: nat
  assume taken: "suffixedName ioType i \<in> set devs"
  have "i \<in> {j. i \<le> j \<and> suffixedName ioType j \<in> set devs}"
    and "i \<notin> {j. Suc i \<le> j \<and> suffixedName ioType j \<in> set devs}"
    using taken by simp_all
  moreover have "{j. Suc i \<le> j \<and> suffixedName ioType j \<in> set devs}
                   \<subseteq> {j. i \<le> j \<and> suffixedName ioType j \<in> set devs}"
    by auto
  ultimately have "{j. Suc i \<le> j \<and> suffixedName ioType j \<in> set devs}
          \<subset> {j. i \<le> j \<and> suffixedName ioType j \<in> set devs}"
    by blast
  then have "card {j. Suc i \<le> j \<and> suffixedName ioType j \<in> set devs}
               < card {j. i \<le> j \<and> suffixedName ioType j \<in> set devs}"
    by (rule psubset_card_mono [OF finite_taken_names])
  then show "((devs, ioType, Suc i), (devs, ioType, i))
               \<in> measure (\<lambda>(devs, ioType, i). card {j. i \<le> j \<and> suffixedName ioType j \<in> set devs})"
    by simp
qed

text \<open>
  "Figure out name": an explicit name is popped and used as it is; otherwise the name
  loop runs against \<^verbatim>\<open>self.devices\<close>, and reading that attribute raises
  \<^verbatim>\<open>AttributeError\<close> when it was never set. The result is the name and the entry
  without its \<^verbatim>\<open>name\<close> key.
\<close>

definition figureName :: "manager \<Rightarrow> pyval \<Rightarrow> item \<Rightarrow> error + (pyval \<times> item)" where
  "figureName self ioType item =
     (case map_of item ''name'' of
        Some name \<Rightarrow> Inr (name, pop ''name'' item)
      | None \<Rightarrow>
          (case devices self of
             None \<Rightarrow> Inl AttributeError
           | Some devs \<Rightarrow> Inr (uniqueName devs ioType 0, item)))"

text \<open>
  \<^verbatim>\<open>DeviceManager.addDevicesFromSpec\<close>, with the table \<^verbatim>\<open>_deviceAddMethods\<close> as a
  parameter. Popping a missing \<^verbatim>\<open>type\<close> key and looking up a type that has no add
  method both raise \<^verbatim>\<open>KeyError\<close>. The add method is called with the name as its first
  positional argument and the remaining keys as keyword arguments; what it returns is
  dropped. An exception ends the loop: the entries after it are not processed. The
  entries are taken to be different dictionaries: the pops change the caller's
  dictionary, which shows only where the list holds the same dictionary twice.
\<close>

fun addDevicesFromSpec :: "(pyval \<rightharpoonup> addMethod) \<Rightarrow> item list \<Rightarrow> manager \<Rightarrow> (unit, manager) result" where
  "addDevicesFromSpec table [] self = (Inr (), self)"
| "addDevicesFromSpec table (item # spec) self =
     (case map_of item ''type'' of
        None \<Rightarrow> (Inl (KeyError (Str ''type'')), self)
      | Some ioType \<Rightarrow>
          (case figureName self ioType (pop ''type'' item) of
             Inl e \<Rightarrow> (Inl e, self)
           | Inr (name, item') \<Rightarrow>
               (case table ioType of
                  None \<Rightarrow> (Inl (KeyError ioType), self)
                | Some fcn \<Rightarrow>
                    (case fcn name item' (self\<lparr>invoked := invoked self @ [(ioType, name, item')]\<rparr>) of
                       (Inl e, self') \<Rightarrow> (Inl e, self')
                     | (Inr _, self') \<Rightarrow> addDevicesFromSpec table spec self'))))"

subsection \<open>The add methods of the source\<close>

text \<open>
  The functions in \<^verbatim>\<open>_deviceAddMethods\<close> are the plain functions of the class body,
  so the call \<^verbatim>\<open>fcn(name, **item)\<close> binds the name to the parameter \<^verbatim>\<open>self\<close>.
  \<open>callBinds required optional item\<close> says that the keyword arguments fit the other
  parameters: every key is a parameter and every parameter without a default has a key.
  Python raises \<^verbatim>\<open>TypeError\<close> otherwise (also for a key \<^verbatim>\<open>self\<close>, given twice).
\<close>

definition callBinds :: "string list \<Rightarrow> string list \<Rightarrow> item \<Rightarrow> bool" where
  "callBinds required optional item =
     (list_all (\<lambda>k. k \<in> set (required @ optional)) (map fst item)
      \<and> list_all (\<lambda>k. k \<in> set (map fst item)) required)"

text \<open>
  The device classes (\<^verbatim>\<open>keyboard.Keyboard\<close>, \<^verbatim>\<open>mouse.Mouse\<close>, ...) are not among the
  source files: \<open>build\<close> is the parameter that builds one, by class name. After the
  construction, \<^verbatim>\<open>self[name] = ...\<close> raises \<^verbatim>\<open>TypeError\<close>, as \<^verbatim>\<open>self\<close> is the name.
\<close>

type_synonym constructor = "string \<Rightarrow> item \<Rightarrow> manager \<Rightarrow> (unit, manager) result"

definition addKeyboard :: "constructor \<Rightarrow> addMethod" where
  "addKeyboard build self item m =
     (if callBinds [] [''backend'', ''device''] item then build ''Keyboard'' item m
      else (Inl TypeError, m))"

definition storeUnderName :: "constructor \<Rightarrow> string \<Rightarrow> item \<Rightarrow> manager \<Rightarrow> (unit, manager) result" where
  "storeUnderName build cls item m =
     (case build cls item m of
        (Inl e, m') \<Rightarrow> (Inl e, m')
      | (Inr _, m') \<Rightarrow> (Inl TypeError, m'))"

definition addMouse :: "constructor \<Rightarrow> addMethod" where
  "addMouse build self item m =
     (if callBinds [''name''] [] item then storeUnderName build ''Mouse'' item m
      else (Inl TypeError, m))"

definition addMicrophone :: "constructor \<Rightarrow> addMethod" where
  "addMicrophone build self item m =
     (if callBinds [''name'', ''device''] [''sampleRate'', ''channels''] item
      then storeUnderName build ''Microphone'' item m
      else (Inl TypeError, m))"

definition addCamera :: "constructor \<Rightarrow> addMethod" where
  "addCamera build self item m =
     (if callBinds [''name''] [''device'', ''backend''] item
      then storeUnderName build ''Camera'' item m
      else (Inl TypeError, m))"

definition addSerialDevice :: "constructor \<Rightarrow> addMethod" where
  "addSerialDevice build self item m =
     (if callBinds [''name'', ''port''] [''baudrate'', ''byteSize'', ''stopBits'', ''parity''] item
      then storeUnderName build ''SerialDevice'' item m
      else (Inl TypeError, m))"

definition addTPad :: "addMethod" where
  "addTPad self item m =
     (if callBinds [''name'', ''port''] [] item then (Inl NotImplementedError, m)
      else (Inl TypeError, m))"

text \<open>The table after the class body of \<^verbatim>\<open>DeviceManager\<close> has run its six decorators.\<close>

definition deviceAddMethods :: "constructor \<Rightarrow> (pyval \<rightharpoonup> addMethod)" where
  "deviceAddMethods build =
     (deviceAddMethod (Str ''TPad'') addTPad
      (deviceAddMethod (Str ''Serial'') (addSerialDevice build)
      (deviceAddMethod (Str ''Camera'') (addCamera build)
      (deviceAddMethod (Str ''Microphone'') (addMicrophone build)
      (deviceAddMethod (Str ''Mouse'') (addMouse build)
      (deviceAddMethod (Str ''Keyboard'') (addKeyboard build) Map.empty))))))"

text \<open>
  \<^verbatim>\<open>mgr = DeviceManager()\<close>, the instance made when the module is loaded: an empty
  list with no attribute \<^verbatim>\<open>devices\<close>. For the examples, \<open>builds\<close> is a device class
  whose construction succeeds and leaves the manager alone.
\<close>

definition mgr :: manager where
  "mgr = \<lparr>registry = [], devices = None, invoked = []\<rparr>"

definition builds :: "constructor" where
  "builds cls item m = (Inr (), m)"

section \<open>Properties of the driver\<close>

lemma exampleTPad_eq:
  "exampleTPad =
     (freshTPad quietHost)
       \<lparr>port := quietHost\<lparr>written := [''X'', ''MOD0'', ''REST'', ''X'', ''MOD3'']\<rparr>,
        lastTimerReset := Some 100\<rparr>"
  by (simp add: exampleTPad_def tPad_init_def freshTPad_def resetTimer_def setMode_def
      exitMode_def scripted_def quietHost_def str_int_def digitChar_def)

lemma match_C_P_1_500:
  "matchMessageFormat ''C P 1 500'' = Some (CHR ''C'', CHR ''P'', CHR ''1'', ''500'')"
  by (simp add: channelCodes_def stateCodes_def buttonCodes_def isDigit_def)

lemma py_int_1: "py_int ''1'' = Inr 1"
  by (simp add: py_int_def isDigit_def digitsVal_def digitVal_def)

lemma py_float_500: "py_float ''500'' = Inr 500"
  by (simp add: py_float_def isDigit_def digitsVal_def digitVal_def)

lemma dispatchLine_C_P_1_500:
  assumes "lastTimerReset self = Some T0" and "photodiodes self 1 = Some pd"
  shows "dispatchLine self ''C P 1 500'' =
           (Inr (), self\<lparr>messages := (messages self)(T0 + 1 / 2 \<mapsto> ''C P 1 500''),
                          photodiodes := (photodiodes self)(1 \<mapsto> receiveMessage pd
                            \<lparr>resp_t = T0 + 1 / 2, resp_value = VBool True,
                             resp_threshold = getThreshold pd\<rparr>)\<rparr>)"
  using assms
  by (simp add: dispatchLine_def match_C_P_1_500 py_int_1 py_float_500 chooseNode_def
      parseMessage_def add.commute Let_def del: matchMessageFormat.simps)

text \<open>
  C2: whatever reset time \<open>T0\<close> the driver holds, dispatching the wire line
  \<^verbatim>\<open>"C P 1 500"\<close> decodes it to channel Optos, state Pressed (the boolean true) and
  code 1, and delivers to photodiode 1 a response whose time is \<open>500 / 1000 + T0\<close>,
  that is \<open>T0 + 1/2\<close> seconds.
\<close>

theorem dispatch_optos_pressed:
  assumes "lastTimerReset self = Some T0"
    and "photodiodes self 1 = Some pd"
    and "getResponse dev (Some (2, timeout)) (port self) = (Inr [''C P 1 500''], w1)"
    and "pause dev w1 = (Inr (), w2)"
  shows "matchMessageFormat ''C P 1 500'' = Some (CHR ''C'', CHR ''P'', CHR ''1'', ''500'')
       \<and> map_of channelCodes (CHR ''C'') = Some ''Optos''
       \<and> map_of stateCodes (CHR ''P'') = Some ''Pressed/On''
       \<and> parseMessage pd (CHR ''C'', CHR ''P'', 1 :: nat, 500 / 1000 + T0)
           = \<lparr>resp_t = T0 + 1 / 2, resp_value = VBool True, resp_threshold = getThreshold pd\<rparr>
       \<and> dispatchMessages dev timeout self =
           (Inr (), self\<lparr>port := w2,
                          messages := (messages self)(T0 + 1 / 2 \<mapsto> ''C P 1 500''),
                          photodiodes := (photodiodes self)(1 \<mapsto> receiveMessage pd
                            \<lparr>resp_t = T0 + 1 / 2, resp_value = VBool True,
                             resp_threshold = getThreshold pd\<rparr>)\<rparr>)"
proof -
  have "dispatchLines (self\<lparr>port := w2\<rparr>) [''C P 1 500''] =
          (Inr (), self\<lparr>port := w2,
                          messages := (messages self)(T0 + 1 / 2 \<mapsto> ''C P 1 500''),
                          photodiodes := (photodiodes self)(1 \<mapsto> receiveMessage pd
                            \<lparr>resp_t = T0 + 1 / 2, resp_value = VBool True,
                             resp_threshold = getThreshold pd\<rparr>)\<rparr>)"
    using assms(1,2) by (simp add: dispatchLine_C_P_1_500)
  then have "dispatchMessages dev timeout self =
          (Inr (), self\<lparr>port := w2,
                          messages := (messages self)(T0 + 1 / 2 \<mapsto> ''C P 1 500''),
                          photodiodes := (photodiodes self)(1 \<mapsto> receiveMessage pd
                            \<lparr>resp_t = T0 + 1 / 2, resp_value = VBool True,
                             resp_threshold = getThreshold pd\<rparr>)\<rparr>)"
    using assms(3,4) by (simp add: dispatchMessages_def)
  moreover have "parseMessage pd (CHR ''C'', CHR ''P'', 1 :: nat, 500 / 1000 + T0)
           = \<lparr>resp_t = T0 + 1 / 2, resp_value = VBool True, resp_threshold = getThreshold pd\<rparr>"
    by (simp add: parseMessage_def add.commute)
  moreover have "map_of channelCodes (CHR ''C'') = Some ''Optos''"
    by (simp add: channelCodes_def)
  moreover have "map_of stateCodes (CHR ''P'') = Some ''Pressed/On''"
    by (simp add: stateCodes_def)
  ultimately show ?thesis
    using match_C_P_1_500 by simp
qed


theorem dispatch_optos_pressed_witness:
  "lastTimerReset exampleTPad = Some 100
   \<and> photodiodes exampleTPad 1 = Some \<lparr>number = 1, pd_threshold = None, pd_messages = []\<rparr>
   \<and> getResponse scripted (Some (2, 1 / 30)) ((port exampleTPad)\<lparr>incoming := [''C P 1 500'']\<rparr>)
       = (Inr [''C P 1 500''], port exampleTPad)
   \<and> pause scripted (port exampleTPad) = (Inr (), port exampleTPad)
   \<and> dispatchMessages scripted (1 / 30)
        (exampleTPad\<lparr>port := (port exampleTPad)\<lparr>incoming := [''C P 1 500'']\<rparr>\<rparr>) =
       (Inr (), exampleTPad\<lparr>messages := [100 + 1 / 2 \<mapsto> ''C P 1 500''],
                  photodiodes := (photodiodes exampleTPad)(1 \<mapsto>
                    \<lparr>number = 1, pd_threshold = None,
                     pd_messages = [\<lparr>resp_t = 100 + 1 / 2, resp_value = VBool True,
                                     resp_threshold = None\<rparr>]\<rparr>)\<rparr>)"
  using dispatch_optos_pressed [of "exampleTPad\<lparr>port := (port exampleTPad)\<lparr>incoming := [''C P 1 500'']\<rparr>\<rparr>"
      100 "\<lparr>number = 1, pd_threshold = None, pd_messages = []\<rparr>" scripted "1 / 30"
      "port exampleTPad" "port exampleTPad"]
  by (simp add: exampleTPad_eq freshTPad_def quietHost_def scripted_def receiveMessage_def
      getThreshold_def)

lemma dispatchLines_unmatched:
  "list_all (\<lambda>l. matchMessageFormat l = None) data \<Longrightarrow> dispatchLines self data = (Inr (), self)"
  by (induction data) (simp_all add: dispatchLine_def)

text \<open>
  A line that the match rejects is skipped: the driver is left as it was, and a batch of
  lines is dispatched as if the line were not in it.
\<close>

lemma dispatch_drops_unmatched:
  assumes "matchMessageFormat line = None"
  shows "dispatchLine self line = (Inr (), self)
       \<and> dispatchLines self (before @ line # after) = dispatchLines self (before @ after)
       \<and> (getResponse dev (Some (2, timeout)) (port self) = (Inr data, w1)
            \<and> pause dev w1 = (Inr (), w2)
            \<and> list_all (\<lambda>l. matchMessageFormat l = None) data
          \<longrightarrow> dispatchMessages dev timeout self = (Inr (), self\<lparr>port := w2\<rparr>))"
proof (intro conjI impI)
  show dropped: "dispatchLine self line = (Inr (), self)" for self :: "'a tPad"
    using assms by (simp add: dispatchLine_def)
  show "dispatchLines self (before @ line # after) = dispatchLines self (before @ after)"
  proof (induction before arbitrary: self)
    case Nil
    then show ?case by (simp add: dropped)
  next
    case (Cons l ls)
    then show ?case by (simp split: prod.splits sum.splits)
  qed
  show "dispatchMessages dev timeout self = (Inr (), self\<lparr>port := w2\<rparr>)"
    if "getResponse dev (Some (2, timeout)) (port self) = (Inr data, w1)
            \<and> pause dev w1 = (Inr (), w2)
            \<and> list_all (\<lambda>l. matchMessageFormat l = None) data"
    using that by (simp add: dispatchMessages_def dispatchLines_unmatched)
qed

text \<open>
  C4 fails on the code: the line \<^verbatim>\<open>"C P 9 abc"\<close>, whose time is not a decimal
  integer, passes the match, because \<^verbatim>\<open>\d*\<close> also matches no digit and nothing ties
  the match to the end of the line. \<^verbatim>\<open>float('')\<close> then raises \<^verbatim>\<open>ValueError\<close> out
  of \<^verbatim>\<open>dispatchMessages\<close>, and the lines after it in the batch are lost. The same
  holds for \<^verbatim>\<open>"C P 1 "\<close>.
\<close>

theorem malformed_time_raises:
  "matchMessageFormat ''C P 9 abc'' = Some (CHR ''C'', CHR ''P'', CHR ''9'', [])
   \<and> dispatchMessages scripted (1 / 30)
        (exampleTPad\<lparr>port := (port exampleTPad)\<lparr>incoming := [''C P 9 abc'', ''C P 1 500'']\<rparr>\<rparr>)
       = (Inl ValueError, exampleTPad)
   \<and> dispatchMessages scripted (1 / 30)
        (exampleTPad\<lparr>port := (port exampleTPad)\<lparr>incoming := [''C P 1 '']\<rparr>\<rparr>)
       = (Inl ValueError, exampleTPad)"
  by (simp add: dispatchMessages_def dispatchLine_def channelCodes_def stateCodes_def
      buttonCodes_def isDigit_def py_int_def py_float_def digitsVal_def digitVal_def
      scripted_def exampleTPad_eq freshTPad_def quietHost_def)

lemma matchMessageFormat_SomeD:
  assumes "matchMessageFormat line = Some (c, st, b, tm)"
  shows "c \<in> set (map fst channelCodes) \<and> st \<in> set (map fst stateCodes)
       \<and> b \<in> set (map fst buttonCodes) \<and> list_all isDigit tm
       \<and> (\<exists>rest. line = c # CHR '' '' # st # CHR '' '' # b # CHR '' '' # rest
                  \<and> tm = takeWhile isDigit rest)"
  using assms
  by (cases line rule: matchMessageFormat.cases)
     (auto simp: list_all_iff split: if_splits dest: set_takeWhileD)

lemma py_int_digit: "isDigit b \<Longrightarrow> py_int [b] = Inr (digitVal b)"
  by (simp add: py_int_def digitsVal_def)

lemma py_float_digits: "tm \<noteq> [] \<Longrightarrow> list_all isDigit tm \<Longrightarrow> py_float tm = Inr (real (digitsVal tm))"
  by (simp add: py_float_def)

lemma dispatchLine_stores:
  assumes "matchMessageFormat line = Some (c, st, b, tm)"
    and "isDigit b" and "tm \<noteq> []" and "lastTimerReset self = Some t0"
  shows "messages (snd (dispatchLine self line)) = (messages self)(real (digitsVal tm) / 1000 + t0 \<mapsto> line)"
    and "lastTimerReset (snd (dispatchLine self line)) = Some t0"
proof -
  have digits: "list_all isDigit tm"
    using matchMessageFormat_SomeD [OF assms(1)] by simp
  show "messages (snd (dispatchLine self line)) = (messages self)(real (digitsVal tm) / 1000 + t0 \<mapsto> line)"
    using assms digits
    by (simp add: dispatchLine_def py_int_digit py_float_digits Let_def
        split: option.splits node.splits)
  show "lastTimerReset (snd (dispatchLine self line)) = Some t0"
    using assms digits
    by (simp add: dispatchLine_def py_int_digit py_float_digits Let_def
        split: option.splits node.splits)
qed


lemma chooseNode_messages: "chooseNode (self\<lparr>messages := m\<rparr>) c k = chooseNode self c k"
  by (simp add: chooseNode_def)

lemma chooseNode_port: "chooseNode (self\<lparr>port := p\<rparr>) c k = chooseNode self c k"
  by (simp add: chooseNode_def)

lemma chooseNode_no_stub:
  assumes "c = CHR ''A'' \<longrightarrow> buttons self k = None" and "c = CHR ''M'' \<longrightarrow> voicekeys self k = None"
  shows "chooseNode self c k
           = (if c = CHR ''C'' then map_option (PhotodiodeNode k) (photodiodes self k) else None)"
  using assms by (auto simp: chooseNode_def split: option.splits)

lemma dispatchLine_digit:
  assumes "matchMessageFormat line = Some (c, st, b, tm)"
    and "isDigit b" and "tm \<noteq> []" and "lastTimerReset self = Some t0"
    and "c = CHR ''A'' \<longrightarrow> buttons self (digitVal b) = None"
    and "c = CHR ''M'' \<longrightarrow> voicekeys self (digitVal b) = None"
  shows "dispatchLine self line =
           (Inr (), self\<lparr>messages := (messages self)(real (digitsVal tm) / 1000 + t0 \<mapsto> line),
                          photodiodes :=
                            (case (if c = CHR ''C'' then photodiodes self (digitVal b) else None) of
                               None \<Rightarrow> photodiodes self
                             | Some p \<Rightarrow> (photodiodes self)(digitVal b \<mapsto> receiveMessage p
                                 (parseMessage p (c, st, digitVal b, real (digitsVal tm) / 1000 + t0))))\<rparr>)"
proof -
  have digits: "list_all isDigit tm"
    using matchMessageFormat_SomeD [OF assms(1)] by simp
  show ?thesis
    using assms digits
    by (simp add: dispatchLine_def py_int_digit py_float_digits Let_def chooseNode_messages
        chooseNode_no_stub split: option.splits)
qed

lemma dispatchMessages_batch:
  assumes "getResponse dev (Some (2, timeout)) (port self) = (Inr data, w1)"
    and "pause dev w1 = (Inr (), w2)"
  shows "dispatchMessages dev timeout self = dispatchLines (self\<lparr>port := w2\<rparr>) data"
  using assms by (simp add: dispatchMessages_def)




text \<open>
  C9 fails on the code: the line \<^verbatim>\<open>"A P 1 500"\<close> matches the grammar and resolves to
  button 1, which is registered, but buttons have no \<^verbatim>\<open>parseMessage\<close>: the dispatch
  raises \<^verbatim>\<open>AttributeError\<close> after storing the line. The same holds for voice key 1.
\<close>

theorem button_line_raises:
  "matchMessageFormat ''A P 1 500'' = Some (CHR ''A'', CHR ''P'', CHR ''1'', ''500'')
   \<and> buttons exampleTPad 1 = Some TPadButton
   \<and> dispatchLine exampleTPad ''A P 1 500''
       = (Inl AttributeError, exampleTPad\<lparr>messages := [100 + 1 / 2 \<mapsto> ''A P 1 500'']\<rparr>)
   \<and> voicekeys exampleTPad 1 = Some TPadVoicekey
   \<and> dispatchLine exampleTPad ''M R 1 500''
       = (Inl AttributeError, exampleTPad\<lparr>messages := [100 + 1 / 2 \<mapsto> ''M R 1 500'']\<rparr>)"
  by (simp add: dispatchLine_def channelCodes_def stateCodes_def buttonCodes_def isDigit_def
      py_int_def py_float_def digitsVal_def digitVal_def chooseNode_def exampleTPad_eq
      freshTPad_def quietHost_def Let_def
      add.commute)

lemma dispatchLine_bracket:
  assumes "matchMessageFormat line = Some (c, st, b, tm)" and "\<not> isDigit b"
  shows "dispatchLine self line = (Inl ValueError, self)"
  using assms by (simp add: dispatchLine_def py_int_def)










lemma setMode_frame:
  assumes "setMode dev mode self = (r, self')"
  shows "lastTimerReset self' = lastTimerReset self" and "messages self' = messages self"
    and "photodiodes self' = photodiodes self" and "buttons self' = buttons self"
    and "voicekeys self' = voicekeys self"
  using assms by (auto simp: setMode_def split: prod.splits sum.splits)

lemma exitMode_traced:
  "exitMode (traced dev) (w, tr) = (r, p) \<Longrightarrow> snd p = tr @ [Sent ''X'']"
  by (auto simp: exitMode_def traced_def split: prod.splits sum.splits if_splits)

lemma setMode_traced:
  assumes "port self = (w, tr)" and "setMode (traced dev) mode self = (Inr (), self')"
  shows "snd (port self') = tr @ [Sent ''X'', Sent (''MOD'' @ str_int mode)]"
proof -
  obtain w1 tr1 where e: "exitMode (traced dev) (w, tr) = (Inr (), (w1, tr1))"
    using assms by (auto simp: setMode_def split: prod.splits sum.splits)
  then have tr1: "tr1 = tr @ [Sent ''X'']"
    using exitMode_traced by fastforce
  show ?thesis
    using assms e tr1
    by (auto simp: setMode_def traced_def split: prod.splits sum.splits)
qed

lemma resetTimer_InrE:
  assumes "resetTimer dev self = (Inr (), self')"
  obtains s1 w2 w3 now w4 where "setMode dev 0 self = (Inr (), s1)"
    and "sendMessage dev ''REST'' (port s1) = (Inr (), w2)"
    and "pause dev w2 = (Inr (), w3)"
    and "getTime dev w3 = (now, w4)"
    and "setMode dev 3 (s1\<lparr>port := w4, lastTimerReset := Some now\<rparr>) = (Inr (), self')"
  using assms by (auto simp: resetTimer_def split: prod.splits sum.splits)

lemma str_int_0: "str_int 0 = ''0''" and str_int_3: "str_int 3 = ''3''"
  by (simp_all add: str_int_def digitChar_def)

lemma resetTimer_traced:
  assumes "port self = (w, tr)" and "resetTimer (traced dev) self = (Inr (), self')"
  shows "\<exists>now. snd (port self')
                 = tr @ [Sent ''X'', Sent ''MOD0'', Sent ''REST'', Clock now, Sent ''X'', Sent ''MOD3'']
             \<and> lastTimerReset self' = Some now
             \<and> messages self' = messages self \<and> photodiodes self' = photodiodes self"
proof -
  from assms(2) obtain s1 p2 p3 now p4
    where m0: "setMode (traced dev) 0 self = (Inr (), s1)"
      and rest: "sendMessage (traced dev) ''REST'' (port s1) = (Inr (), p2)"
      and pse: "pause (traced dev) p2 = (Inr (), p3)"
      and clk: "getTime (traced dev) p3 = (now, p4)"
      and m3: "setMode (traced dev) 3 (s1\<lparr>port := p4, lastTimerReset := Some now\<rparr>) = (Inr (), self')"
    by (rule resetTimer_InrE)
  have t1: "snd (port s1) = tr @ [Sent ''X'', Sent ''MOD0'']"
    using setMode_traced [OF assms(1) m0] by (simp add: str_int_0)
  have t2: "snd p2 = tr @ [Sent ''X'', Sent ''MOD0'', Sent ''REST'']"
    using rest t1 by (cases "port s1") (auto simp: traced_def split: prod.splits)
  have t3: "snd p3 = snd p2"
    using pse by (cases p2) (auto simp: traced_def split: prod.splits)
  have t4: "snd p4 = tr @ [Sent ''X'', Sent ''MOD0'', Sent ''REST'', Clock now]"
    using clk t2 t3 by (cases p3) (auto simp: traced_def split: prod.splits)
  have "port (s1\<lparr>port := p4, lastTimerReset := Some now\<rparr>) = (fst p4, snd p4)"
    by simp
  from setMode_traced [OF this m3]
  have t5: "snd (port self')
              = tr @ [Sent ''X'', Sent ''MOD0'', Sent ''REST'', Clock now, Sent ''X'', Sent ''MOD3'']"
    by (simp add: t4 str_int_3)
  have "lastTimerReset self' = Some now"
    using setMode_frame(1) [OF m3] by simp
  moreover have "messages self' = messages self"
    using setMode_frame(2) [OF m3] setMode_frame(2) [OF m0] by simp
  moreover have "photodiodes self' = photodiodes self"
    using setMode_frame(3) [OF m3] setMode_frame(3) [OF m0] by simp
  ultimately show ?thesis
    using t5 by blast
qed

lemma dispatchLines_single: "snd (dispatchLines self [line]) = snd (dispatchLine self line)"
  by (simp split: prod.splits sum.splits)

lemma parseMessage_matched:
  assumes "matchMessageFormat line = Some (c, st, b, tm)"
  shows "parseMessage pd (ch, st, k, ts)
           = \<lparr>resp_t = ts, resp_value = VBool (st = CHR ''P''), resp_threshold = getThreshold pd\<rparr>"
proof -
  have "st \<in> set (map fst stateCodes)"
    using matchMessageFormat_SomeD [OF assms] by simp
  then have "st = CHR ''P'' \<or> st = CHR ''R''"
    by (simp add: stateCodes_def)
  then show ?thesis
    by (auto simp: parseMessage_def)
qed

lemma dispatchLine_no_node:
  assumes "matchMessageFormat line = Some (c, st, b, tm)"
    and "isDigit b" and "tm \<noteq> []" and "lastTimerReset self = Some t0"
    and "chooseNode self c (digitVal b) = None"
  shows "dispatchLine self line =
           (Inr (), self\<lparr>messages := (messages self)(real (digitsVal tm) / 1000 + t0 \<mapsto> line)\<rparr>)"
proof -
  have digits: "list_all isDigit tm"
    using matchMessageFormat_SomeD [OF assms(1)] by simp
  show ?thesis
    using assms digits
    by (simp add: dispatchLine_def py_int_digit py_float_digits Let_def chooseNode_messages)
qed

text \<open>
  C6: a \<^verbatim>\<open>resetTimer\<close> that returns has sent, in this order, the exit command and
  \<^verbatim>\<open>MOD0\<close> (mode 0), the reset command \<^verbatim>\<open>REST\<close>, then read the host clock, then
  sent the exit command and \<^verbatim>\<open>MOD3\<close> (mode 3); the reset time it leaves is that clock
  reading. Any message with raw time 0 (and a digit as its code) that the next
  \<^verbatim>\<open>dispatchMessages\<close> reads is stamped with exactly that reading: the history holds
  the line under it, a line for a photodiode is delivered as a response with that time
  and the call returns, and so does the call for a line that resolves to no handler.
\<close>

theorem resetTimer_epoch:
  assumes "port self = (w, tr)" and "resetTimer (traced dev) self = (Inr (), self')"
  shows "\<exists>now. snd (port self')
                 = tr @ [Sent ''X'', Sent ''MOD0'', Sent ''REST'', Clock now, Sent ''X'', Sent ''MOD3'']
             \<and> lastTimerReset self' = Some now
             \<and> (\<forall>line c st b tm timeout p1 p2.
                    matchMessageFormat line = Some (c, st, b, tm) \<and> isDigit b \<and> tm \<noteq> []
                    \<and> digitsVal tm = 0
                    \<and> getResponse (traced dev) (Some (2, timeout)) (port self') = (Inr [line], p1)
                    \<and> pause (traced dev) p1 = (Inr (), p2)
                  \<longrightarrow> messages (snd (dispatchMessages (traced dev) timeout self'))
                        = (messages self')(now \<mapsto> line)
                      \<and> (\<forall>pd. c = CHR ''C'' \<and> photodiodes self' (digitVal b) = Some pd \<longrightarrow>
                            dispatchMessages (traced dev) timeout self' =
                              (Inr (), self'\<lparr>port := p2,
                                 messages := (messages self')(now \<mapsto> line),
                                 photodiodes := (photodiodes self')(digitVal b \<mapsto> receiveMessage pd
                                   \<lparr>resp_t = now, resp_value = VBool (st = CHR ''P''),
                                    resp_threshold = getThreshold pd\<rparr>)\<rparr>))
                      \<and> (chooseNode self' c (digitVal b) = None \<longrightarrow>
                            dispatchMessages (traced dev) timeout self' =
                              (Inr (), self'\<lparr>port := p2,
                                 messages := (messages self')(now \<mapsto> line)\<rparr>)))"
proof -
  from resetTimer_traced [OF assms] obtain now
    where tr: "snd (port self')
                 = tr @ [Sent ''X'', Sent ''MOD0'', Sent ''REST'', Clock now, Sent ''X'', Sent ''MOD3'']"
      and epoch: "lastTimerReset self' = Some now"
    by blast
  have "messages (snd (dispatchMessages (traced dev) timeout self')) = (messages self')(now \<mapsto> line)
      \<and> (\<forall>pd. c = CHR ''C'' \<and> photodiodes self' (digitVal b) = Some pd \<longrightarrow>
            dispatchMessages (traced dev) timeout self' =
              (Inr (), self'\<lparr>port := p2,
                 messages := (messages self')(now \<mapsto> line),
                 photodiodes := (photodiodes self')(digitVal b \<mapsto> receiveMessage pd
                   \<lparr>resp_t = now, resp_value = VBool (st = CHR ''P''),
                    resp_threshold = getThreshold pd\<rparr>)\<rparr>))
      \<and> (chooseNode self' c (digitVal b) = None \<longrightarrow>
            dispatchMessages (traced dev) timeout self' =
              (Inr (), self'\<lparr>port := p2, messages := (messages self')(now \<mapsto> line)\<rparr>))"
    if m: "matchMessageFormat line = Some (c, st, b, tm)" and d: "isDigit b" and ne: "tm \<noteq> []"
      and zero: "digitsVal tm = 0"
      and get: "getResponse (traced dev) (Some (2, timeout)) (port self') = (Inr [line], p1)"
      and pse: "pause (traced dev) p1 = (Inr (), p2)"
    for line c st b tm timeout p1 p2
  proof -
    let ?s = "self'\<lparr>port := p2\<rparr>"
    have run: "dispatchMessages (traced dev) timeout self' = dispatchLines ?s [line]"
      using get pse by (rule dispatchMessages_batch)
    have e: "lastTimerReset ?s = Some now"
      using epoch by simp
    have "messages (snd (dispatchLines ?s [line])) = (messages self')(now \<mapsto> line)"
      using dispatchLine_stores(1) [OF m d ne e] zero by (simp only: dispatchLines_single) simp
    moreover have "dispatchLines ?s [line] =
              (Inr (), self'\<lparr>port := p2,
                 messages := (messages self')(now \<mapsto> line),
                 photodiodes := (photodiodes self')(digitVal b \<mapsto> receiveMessage pd
                   \<lparr>resp_t = now, resp_value = VBool (st = CHR ''P''),
                    resp_threshold = getThreshold pd\<rparr>)\<rparr>)"
      if "c = CHR ''C'' \<and> photodiodes self' (digitVal b) = Some pd" for pd
      using that dispatchLine_digit [OF m d ne e] zero
      by (simp add: parseMessage_matched [OF m])
    moreover have "dispatchLines ?s [line] =
              (Inr (), self'\<lparr>port := p2, messages := (messages self')(now \<mapsto> line)\<rparr>)"
      if "chooseNode self' c (digitVal b) = None"
      using that dispatchLine_no_node [OF m d ne e] zero by (simp add: chooseNode_port)
    ultimately show ?thesis
      by (simp only: run) blast
  qed
  then show ?thesis
    using tr epoch by blast
qed

theorem resetTimer_epoch_witness:
  "port waitingTPad = ([[], [], [''C P 2 0'']], [])
   \<and> resetTimer (traced (queued 100)) waitingTPad =
       (Inr (), waitingTPad
                  \<lparr>port := ([[''C P 2 0'']],
                            [Sent ''X'', Sent ''MOD0'', Sent ''REST'', Clock 100, Sent ''X'',
                             Sent ''MOD3'']),
                    lastTimerReset := Some 100\<rparr>)
   \<and> matchMessageFormat ''C P 2 0'' = Some (CHR ''C'', CHR ''P'', CHR ''2'', ''0'')
   \<and> isDigit CHR ''2'' \<and> digitsVal ''0'' = 0
   \<and> dispatchMessages (traced (queued 100)) (1 / 30)
         (snd (resetTimer (traced (queued 100)) waitingTPad)) =
       (Inr (), waitingTPad
                  \<lparr>port := ([],
                            [Sent ''X'', Sent ''MOD0'', Sent ''REST'', Clock 100, Sent ''X'',
                             Sent ''MOD3'']),
                    lastTimerReset := Some 100,
                    messages := [100 \<mapsto> ''C P 2 0''],
                    photodiodes := (photodiodes waitingTPad)(2 \<mapsto>
                      \<lparr>number = 2, pd_threshold = None,
                       pd_messages = [\<lparr>resp_t = 100, resp_value = VBool True,
                                       resp_threshold = None\<rparr>]\<rparr>)\<rparr>)"
proof -
  let ?s0 = "waitingTPad"
  let ?tr = "[Sent ''X'', Sent ''MOD0'', Sent ''REST'', Clock 100, Sent ''X'', Sent ''MOD3'']"
  let ?s1 = "?s0\<lparr>port := ([[''C P 2 0'']], ?tr), lastTimerReset := Some 100\<rparr>"
  have p: "port ?s0 = ([[], [], [''C P 2 0'']], [])"
    by (simp add: waitingTPad_def freshTPad_def)
  have run: "resetTimer (traced (queued 100)) ?s0 = (Inr (), ?s1)"
    by (simp add: waitingTPad_def freshTPad_def resetTimer_def setMode_def exitMode_def
        traced_def queued_def str_int_def digitChar_def)
  have m: "matchMessageFormat ''C P 2 0'' = Some (CHR ''C'', CHR ''P'', CHR ''2'', ''0'')"
    by (simp add: channelCodes_def stateCodes_def buttonCodes_def isDigit_def)
  have d: "isDigit CHR ''2''" and z: "digitsVal ''0'' = 0" and k: "digitVal CHR ''2'' = 2"
    by (simp_all add: isDigit_def digitsVal_def digitVal_def)
  have get: "getResponse (traced (queued 100)) (Some (2, 1 / 30)) (port ?s1) = (Inr [''C P 2 0''], ([], ?tr))"
    by (simp add: waitingTPad_def traced_def queued_def)
  have pse: "pause (traced (queued 100)) ([], ?tr) = (Inr (), ([], ?tr))"
    by (simp add: waitingTPad_def traced_def queued_def)
  have pd: "photodiodes ?s1 (digitVal CHR ''2'') = Some \<lparr>number = 2, pd_threshold = None, pd_messages = []\<rparr>"
    by (simp add: k waitingTPad_def freshTPad_def)
  from resetTimer_epoch [OF p run] obtain now
    where e: "lastTimerReset ?s1 = Some now"
      and all: "\<forall>line c st b tm timeout p1 p2.
                    matchMessageFormat line = Some (c, st, b, tm) \<and> isDigit b \<and> tm \<noteq> []
                    \<and> digitsVal tm = 0
                    \<and> getResponse (traced (queued 100)) (Some (2, timeout)) (port ?s1) = (Inr [line], p1)
                    \<and> pause (traced (queued 100)) p1 = (Inr (), p2)
                  \<longrightarrow> messages (snd (dispatchMessages (traced (queued 100)) timeout ?s1))
                        = (messages ?s1)(now \<mapsto> line)
                      \<and> (\<forall>pd. c = CHR ''C'' \<and> photodiodes ?s1 (digitVal b) = Some pd \<longrightarrow>
                            dispatchMessages (traced (queued 100)) timeout ?s1 =
                              (Inr (), ?s1\<lparr>port := p2,
                                 messages := (messages ?s1)(now \<mapsto> line),
                                 photodiodes := (photodiodes ?s1)(digitVal b \<mapsto> receiveMessage pd
                                   \<lparr>resp_t = now, resp_value = VBool (st = CHR ''P''),
                                    resp_threshold = getThreshold pd\<rparr>)\<rparr>))
                      \<and> (chooseNode ?s1 c (digitVal b) = None \<longrightarrow>
                            dispatchMessages (traced (queued 100)) timeout ?s1 =
                              (Inr (), ?s1\<lparr>port := p2,
                                 messages := (messages ?s1)(now \<mapsto> line)\<rparr>))"
    by blast
  from e have now: "now = 100"
    by simp
  from all m d z get pse pd
  have "dispatchMessages (traced (queued 100)) (1 / 30) ?s1 =
          (Inr (), ?s1\<lparr>port := ([], ?tr),
             messages := (messages ?s1)(now \<mapsto> ''C P 2 0''),
             photodiodes := (photodiodes ?s1)(digitVal CHR ''2'' \<mapsto> receiveMessage
               \<lparr>number = 2, pd_threshold = None, pd_messages = []\<rparr>
               \<lparr>resp_t = now, resp_value = VBool (CHR ''P'' = CHR ''P''),
                resp_threshold = getThreshold \<lparr>number = 2, pd_threshold = None, pd_messages = []\<rparr>\<rparr>)\<rparr>)"
    by blast
  then have "dispatchMessages (traced (queued 100)) (1 / 30) ?s1 =
          (Inr (), ?s0\<lparr>port := ([], ?tr), lastTimerReset := Some 100,
             messages := [100 \<mapsto> ''C P 2 0''],
             photodiodes := (photodiodes ?s0)(2 \<mapsto>
               \<lparr>number = 2, pd_threshold = None,
                pd_messages = [\<lparr>resp_t = 100, resp_value = VBool True,
                                resp_threshold = None\<rparr>]\<rparr>)\<rparr>)"
    by (simp add: now k waitingTPad_def freshTPad_def receiveMessage_def getThreshold_def)
  then have final: "dispatchMessages (traced (queued 100)) (1 / 30)
         (snd (resetTimer (traced (queued 100)) ?s0)) =
          (Inr (), ?s0\<lparr>port := ([], ?tr), lastTimerReset := Some 100,
             messages := [100 \<mapsto> ''C P 2 0''],
             photodiodes := (photodiodes ?s0)(2 \<mapsto>
               \<lparr>number = 2, pd_threshold = None,
                pd_messages = [\<lparr>resp_t = 100, resp_value = VBool True,
                                resp_threshold = None\<rparr>]\<rparr>)\<rparr>)"
    by (simp only: run snd_conv)
  show ?thesis
    by (intro conjI p run m d z final)
qed

text \<open>
  C7: for every target mode, a \<^verbatim>\<open>SerialException\<close> raised while sending the exit
  command \<^verbatim>\<open>"X"\<close> (or during the pause after it) is swallowed: \<^verbatim>\<open>setMode\<close> goes
  on from the state the fault left and completes the mode change. An exception raised
  while sending the mode-select command reaches the caller, whether or not the exit
  step had raised.
\<close>

theorem setMode_faults:
  "(sendMessage dev ''X'' (port self) = (Inl SerialException, w1)
      \<and> sendMessage dev (''MOD'' @ str_int mode) w1 = (Inr (), w2)
      \<and> pause dev w2 = (Inr (), w3) \<and> getResponse dev None w3 = (Inr resp, w4)
      \<longrightarrow> setMode dev mode self = (Inr (), self\<lparr>port := w4\<rparr>))
   \<and> (sendMessage dev ''X'' (port self) = (Inr (), w0) \<and> pause dev w0 = (Inl SerialException, w1)
      \<and> sendMessage dev (''MOD'' @ str_int mode) w1 = (Inr (), w2)
      \<and> pause dev w2 = (Inr (), w3) \<and> getResponse dev None w3 = (Inr resp, w4)
      \<longrightarrow> setMode dev mode self = (Inr (), self\<lparr>port := w4\<rparr>))
   \<and> (sendMessage dev ''X'' (port self) = (Inl SerialException, w1)
      \<and> sendMessage dev (''MOD'' @ str_int mode) w1 = (Inl e, w2)
      \<longrightarrow> setMode dev mode self = (Inl e, self\<lparr>port := w2\<rparr>))
   \<and> (sendMessage dev ''X'' (port self) = (Inr (), w0) \<and> pause dev w0 = (Inr (), w1)
      \<and> sendMessage dev (''MOD'' @ str_int mode) w1 = (Inl e, w2)
      \<longrightarrow> setMode dev mode self = (Inl e, self\<lparr>port := w2\<rparr>))"
  by (simp add: setMode_def exitMode_def)

theorem setMode_faults_witness:
  "sendMessage scripted ''X'' (quietHost\<lparr>refused := [''X'']\<rparr>)
     = (Inl SerialException, quietHost\<lparr>refused := [''X'']\<rparr>)
   \<and> setMode scripted 3 (freshTPad (quietHost\<lparr>refused := [''X'']\<rparr>))
     = (Inr (), freshTPad (quietHost\<lparr>refused := [''X''], written := [''MOD3'']\<rparr>))
   \<and> sendMessage scripted ''MOD3'' (quietHost\<lparr>refused := [''MOD3''], written := [''X'']\<rparr>)
     = (Inl SerialException, quietHost\<lparr>refused := [''MOD3''], written := [''X'']\<rparr>)
   \<and> setMode scripted 3 (freshTPad (quietHost\<lparr>refused := [''MOD3'']\<rparr>))
     = (Inl SerialException, freshTPad (quietHost\<lparr>refused := [''MOD3''], written := [''X'']\<rparr>))"
  using setMode_faults [where dev = scripted and mode = 3 and resp = "[]"
      and self = "freshTPad (quietHost\<lparr>refused := [''X'']\<rparr>)"
      and ?w1.0 = "quietHost\<lparr>refused := [''X'']\<rparr>"
      and ?w2.0 = "quietHost\<lparr>refused := [''X''], written := [''MOD3'']\<rparr>"
      and ?w3.0 = "quietHost\<lparr>refused := [''X''], written := [''MOD3'']\<rparr>"
      and ?w4.0 = "quietHost\<lparr>refused := [''X''], written := [''MOD3'']\<rparr>"]
    setMode_faults [where dev = scripted and mode = 3 and e = SerialException
      and self = "freshTPad (quietHost\<lparr>refused := [''MOD3'']\<rparr>)"
      and ?w0.0 = "quietHost\<lparr>refused := [''MOD3''], written := [''X'']\<rparr>"
      and ?w1.0 = "quietHost\<lparr>refused := [''MOD3''], written := [''X'']\<rparr>"
      and ?w2.0 = "quietHost\<lparr>refused := [''MOD3''], written := [''X'']\<rparr>"]
  by (simp add: scripted_def quietHost_def freshTPad_def str_int_def digitChar_def)

section \<open>Properties of the device manager\<close>

lemma isSameDevice_identity: "isSameDevice obj d \<longleftrightarrow> deviceIdentity obj = deviceIdentity d"
  by (simp add: isSameDevice_def deviceIdentity_def)

lemma list_ex_same:
  assumes "\<forall>a b. same a b \<longleftrightarrow> ident a = ident b"
  shows "list_ex (\<lambda>obj. same obj d) reg \<longleftrightarrow> ident d \<in> set (map ident reg)"
proof
  assume "list_ex (\<lambda>obj. same obj d) reg"
  then obtain obj where "obj \<in> set reg" and "ident obj = ident d"
    using assms by (auto simp: list_ex_iff)
  then show "ident d \<in> set (map ident reg)"
    by (metis image_eqI set_map)
next
  assume "ident d \<in> set (map ident reg)"
  then show "list_ex (\<lambda>obj. same obj d) reg"
    using assms by (auto simp: list_ex_iff)
qed

lemma count_distinct_key:
  "distinct (map f xs) \<Longrightarrow> length (filter (\<lambda>x. f x = k) xs) = (if k \<in> set (map f xs) then 1 else 0)"
  by (induction xs) auto

lemma registerDevice_identities:
  assumes "\<forall>a b. same a b \<longleftrightarrow> ident a = ident b"
  shows "set (map ident (registerDevice same reg d)) = insert (ident d) (set (map ident reg))"
  using list_ex_same [OF assms, of d reg] by (auto simp: registerDevice_def)

lemma registerDevice_distinct:
  assumes "\<forall>a b. same a b \<longleftrightarrow> ident a = ident b" and "distinct (map ident reg)"
  shows "distinct (map ident (registerDevice same reg d))"
  using list_ex_same [OF assms(1), of d reg] assms(2) by (auto simp: registerDevice_def)

text \<open>
  C1: a device that some registered device reports as the same is discarded and the
  registry stays as it was; a device that none reports as the same is appended. Where
  being the same means having equal identity parameters, and no two registered devices
  share theirs, registering two devices of equal identity one after the other adds the
  second as nothing: the registry holds exactly one entry of that identity, and still no
  two entries share one.
\<close>

theorem registerDevice_idempotent:
  "(list_ex (\<lambda>obj. same obj d) reg \<longrightarrow> registerDevice same reg d = reg)
   \<and> (\<not> list_ex (\<lambda>obj. same obj d) reg \<longrightarrow> registerDevice same reg d = reg @ [d])
   \<and> ((\<forall>a b. same a b \<longleftrightarrow> ident a = ident b) \<and> distinct (map ident reg) \<and> ident d' = ident d \<longrightarrow>
        registerDevice same (registerDevice same reg d) d' = registerDevice same reg d
        \<and> length (filter (\<lambda>obj. ident obj = ident d) (registerDevice same (registerDevice same reg d) d')) = 1
        \<and> distinct (map ident (registerDevice same (registerDevice same reg d) d')))"
proof (intro conjI impI)
  show "registerDevice same reg d = reg" if "list_ex (\<lambda>obj. same obj d) reg"
    using that by (simp add: registerDevice_def)
  show "registerDevice same reg d = reg @ [d]" if "\<not> list_ex (\<lambda>obj. same obj d) reg"
    using that by (simp add: registerDevice_def)
next
  assume a: "(\<forall>a b. same a b \<longleftrightarrow> ident a = ident b) \<and> distinct (map ident reg) \<and> ident d' = ident d"
  then have eqv: "\<forall>a b. same a b \<longleftrightarrow> ident a = ident b" and same: "ident d' = ident d"
    by simp_all
  let ?r1 = "registerDevice same reg d"
  have in1: "ident d \<in> set (map ident ?r1)"
    by (simp only: registerDevice_identities [OF eqv]) simp
  then have "list_ex (\<lambda>obj. same obj d') ?r1"
    by (simp only: list_ex_same [OF eqv] same)
  then show noop: "registerDevice same ?r1 d' = ?r1"
    by (simp add: registerDevice_def)
  have d1: "distinct (map ident ?r1)"
    using a by (simp add: registerDevice_distinct [OF eqv])
  then show "distinct (map ident (registerDevice same ?r1 d'))"
    by (simp only: noop)
  have "length (filter (\<lambda>obj. ident obj = ident d) ?r1) = 1"
    using count_distinct_key [OF d1, of "ident d"] in1 by simp
  then show "length (filter (\<lambda>obj. ident obj = ident d) (registerDevice same ?r1 d')) = 1"
    by (simp only: noop)
qed

theorem registerDevice_idempotent_witness:
  "(\<forall>a b. isSameDevice a b \<longleftrightarrow> deviceIdentity a = deviceIdentity b)
   \<and> deviceIdentity \<lparr>deviceType = ''Serial'', identityParams = [(''port'', Str ''COM3'')], handle = 2\<rparr>
       = deviceIdentity \<lparr>deviceType = ''Serial'', identityParams = [(''port'', Str ''COM3'')], handle = 1\<rparr>
   \<and> registerDevice isSameDevice (registerDevice isSameDevice []
        \<lparr>deviceType = ''Serial'', identityParams = [(''port'', Str ''COM3'')], handle = 1\<rparr>)
        \<lparr>deviceType = ''Serial'', identityParams = [(''port'', Str ''COM3'')], handle = 2\<rparr>
       = [\<lparr>deviceType = ''Serial'', identityParams = [(''port'', Str ''COM3'')], handle = 1\<rparr>]
   \<and> registerDevice isSameDevice
        [\<lparr>deviceType = ''Serial'', identityParams = [(''port'', Str ''COM3'')], handle = 1\<rparr>]
        \<lparr>deviceType = ''Serial'', identityParams = [(''port'', Str ''COM4'')], handle = 2\<rparr>
       = [\<lparr>deviceType = ''Serial'', identityParams = [(''port'', Str ''COM3'')], handle = 1\<rparr>,
          \<lparr>deviceType = ''Serial'', identityParams = [(''port'', Str ''COM4'')], handle = 2\<rparr>]"
  using registerDevice_idempotent [where same = isSameDevice and ident = deviceIdentity
      and reg = "[]"
      and d = "\<lparr>deviceType = ''Serial'', identityParams = [(''port'', Str ''COM3'')], handle = 1\<rparr>"
      and d' = "\<lparr>deviceType = ''Serial'', identityParams = [(''port'', Str ''COM3'')], handle = 2\<rparr>"]
    registerDevice_idempotent [where same = isSameDevice and ident = deviceIdentity
      and reg = "[\<lparr>deviceType = ''Serial'', identityParams = [(''port'', Str ''COM3'')], handle = 1\<rparr>]"
      and d = "\<lparr>deviceType = ''Serial'', identityParams = [(''port'', Str ''COM4'')], handle = 2\<rparr>"]
  by (simp add: isSameDevice_def registerDevice_def deviceIdentity_def)








text \<open>
  C3 fails on the code: nothing that \<^verbatim>\<open>addDevicesFromSpec\<close> calls records the chosen
  name in \<^verbatim>\<open>devices\<close>, so two unnamed entries of type \<^verbatim>\<open>Keyboard\<close> are both
  constructed under the same name: \<^verbatim>\<open>Keyboard\<close> when \<^verbatim>\<open>devices\<close> is empty,
  \<^verbatim>\<open>Keyboard2\<close> when it holds \<^verbatim>\<open>Keyboard\<close> and \<^verbatim>\<open>Keyboard1\<close>. On a manager whose
  \<^verbatim>\<open>devices\<close> was never set, the first unnamed entry raises \<^verbatim>\<open>AttributeError\<close>.
\<close>

theorem unnamed_twins_share_name:
  "addDevicesFromSpec (deviceAddMethods builds)
     [[(''type'', Str ''Keyboard'')], [(''type'', Str ''Keyboard'')]] (mgr\<lparr>devices := Some []\<rparr>)
     = (Inr (), mgr\<lparr>devices := Some [],
                    invoked := [(Str ''Keyboard'', Str ''Keyboard'', []),
                                (Str ''Keyboard'', Str ''Keyboard'', [])]\<rparr>)
   \<and> addDevicesFromSpec (deviceAddMethods builds)
     [[(''type'', Str ''Keyboard'')], [(''type'', Str ''Keyboard'')]]
     (mgr\<lparr>devices := Some [Str ''Keyboard'', Str ''Keyboard1'']\<rparr>)
     = (Inr (), mgr\<lparr>devices := Some [Str ''Keyboard'', Str ''Keyboard1''],
                    invoked := [(Str ''Keyboard'', Str ''Keyboard2'', []),
                                (Str ''Keyboard'', Str ''Keyboard2'', [])]\<rparr>)
   \<and> addDevicesFromSpec (deviceAddMethods builds)
     [[(''type'', Str ''Keyboard'')], [(''type'', Str ''Keyboard'')]] mgr
     = (Inl AttributeError, mgr)"
  by (simp add: deviceAddMethods_def deviceAddMethod_def figureName_def pop_def addKeyboard_def
      callBinds_def builds_def mgr_def suffixedName_def digitChar_def)

end
